theory Spec2Isabelle
  imports Complex_Main
begin

section \<open>KMZ flood polygons: loader and depth-extrusion renderer\<close>

text \<open>
  A shallow embedding of the scripts of the repository that load and draw:
  \<^item> \<^verbatim>\<open>read_kmz_geopandas.py\<close>: \<^verbatim>\<open>extract_kml_from_kmz\<close>, \<^verbatim>\<open>read_kml_to_gdf\<close>;
  \<^item> \<^verbatim>\<open>plot_kmz_flood.py\<close>: \<^verbatim>\<open>extract_kml\<close>, \<^verbatim>\<open>read_polygons\<close>, \<^verbatim>\<open>plot_extruded_3d\<close>;
  \<^item> \<^verbatim>\<open>read_kml_with_pyogrio.py\<close>: \<^verbatim>\<open>extract_kml\<close> and the reading step of \<^verbatim>\<open>main\<close>.

  \<^verbatim>\<open>preview_globe_pydeck.py\<close> only hands a file to pydeck and is not modelled.

  Numbers are modelled as \<^typ>\<open>real\<close> (exact arithmetic); rounding of Python floats is not
  modelled. Library functions (the zip extractor, the GDAL readers, reprojection, the
  zero-distance buffer, the validity test, the colour map, the random generator and the
  centroid) are parameters of the functions that call them.
\<close>

subsection \<open>Exceptions\<close>

datatype py_error =
    FileNotFoundError string
  | ValueError
  | AttributeError
  | IndexError
  | FloatingPointError
  | LibraryError string

subsection \<open>The extracted workspace\<close>

text \<open>
  The temporary directory after \<^verbatim>\<open>zf.extractall(td)\<close>: a list of entries in the order in
  which the operating system lists them; a directory carries its own entries.
\<close>

datatype entry = File string | Dir string "entry list"

fun entry_name :: "entry \<Rightarrow> string" where
  "entry_name (File n) = n"
| "entry_name (Dir n sub) = n"

text \<open>\<^verbatim>\<open>str.lower\<close> on ASCII letters; every other character is left as it is.\<close>

definition lower_char :: "char \<Rightarrow> char" where
  "lower_char c =
     (case map_of (zip ''ABCDEFGHIJKLMNOPQRSTUVWXYZ'' ''abcdefghijklmnopqrstuvwxyz'') c of
        Some d \<Rightarrow> d
      | None \<Rightarrow> c)"

definition lower :: "string \<Rightarrow> string" where
  "lower s = map lower_char s"

definition endswith :: "string \<Rightarrow> string \<Rightarrow> bool" where
  "endswith s suf = (length suf \<le> length s \<and> drop (length s - length suf) s = suf)"

text \<open>The test of all three scripts: \<^verbatim>\<open>f.lower().endswith(".kml")\<close>.\<close>

definition is_kml :: "string \<Rightarrow> bool" where
  "is_kml f = endswith (lower f) ''.kml''"

text \<open>\<^verbatim>\<open>os.path.join(dir, f)\<close> for a relative name \<open>f\<close>.\<close>

definition path_join :: "string \<Rightarrow> string \<Rightarrow> string" where
  "path_join dir f =
     (if dir \<noteq> [] \<and> last dir = CHR ''/'' then dir @ f else dir @ ''/'' @ f)"

text \<open>\<^verbatim>\<open>os.listdir(td)\<close>: the names of files and directories alike, not descending.\<close>

definition listdir :: "entry list \<Rightarrow> string list" where
  "listdir es = map entry_name es"

fun files_of :: "entry list \<Rightarrow> string list" where
  "files_of [] = []"
| "files_of (File n # es) = n # files_of es"
| "files_of (Dir n sub # es) = files_of es"

text \<open>
  \<^verbatim>\<open>os.walk(tp)\<close>, top-down: the directory itself with its plain files, then every
  sub-directory in listing order. Only the \<open>(root, files)\<close> components are kept, as
  the loops ignore the second component.
\<close>

fun walk :: "string \<Rightarrow> entry list \<Rightarrow> (string \<times> string list) list"
and walk_dirs :: "string \<Rightarrow> entry list \<Rightarrow> (string \<times> string list) list" where
  "walk tp es = (tp, files_of es) # walk_dirs tp es"
| "walk_dirs tp [] = []"
| "walk_dirs tp (File n # es) = walk_dirs tp es"
| "walk_dirs tp (Dir n sub # es) = walk (path_join tp n) sub @ walk_dirs tp es"

text \<open>The inner loop \<^verbatim>\<open>for f in files: if f.lower().endswith(".kml"): return join(root, f)\<close>.\<close>

fun find_kml_in :: "string \<Rightarrow> string list \<Rightarrow> string option" where
  "find_kml_in dir [] = None"
| "find_kml_in dir (f # fs) =
     (if is_kml f then Some (path_join dir f) else find_kml_in dir fs)"

text \<open>The outer loop \<^verbatim>\<open>for root, _, files in os.walk(tmpdir)\<close>.\<close>

fun find_kml_walk :: "(string \<times> string list) list \<Rightarrow> string option" where
  "find_kml_walk [] = None"
| "find_kml_walk ((dir, files) # rest) =
     (case find_kml_in dir files of
        Some p \<Rightarrow> Some p
      | None \<Rightarrow> find_kml_walk rest)"

text \<open>
  The zip extractor is a parameter: \<open>unzip kmz_path td\<close> is either the exception that
  \<^verbatim>\<open>zipfile\<close> raises or the entries found under \<open>td\<close> after \<^verbatim>\<open>extractall\<close>.
\<close>

type_synonym unzipper = "string \<Rightarrow> string \<Rightarrow> py_error + entry list"

text \<open>\<^verbatim>\<open>read_kmz_geopandas.extract_kml_from_kmz\<close>\<close>

definition extract_kml_from_kmz ::
  "(string \<Rightarrow> bool) \<Rightarrow> unzipper \<Rightarrow> string \<Rightarrow> string \<Rightarrow> py_error + string" where
  "extract_kml_from_kmz path_exists unzip kmz_path tmpdir =
     (if \<not> path_exists kmz_path then Inl (FileNotFoundError (''Not found: '' @ kmz_path))
      else case unzip kmz_path tmpdir of
             Inl e \<Rightarrow> Inl e
           | Inr tree \<Rightarrow>
               (case find_kml_walk (walk tmpdir tree) of
                  Some p \<Rightarrow> Inr p
                | None \<Rightarrow> Inl (FileNotFoundError ''No .kml inside KMZ'')))"

text \<open>\<^verbatim>\<open>plot_kmz_flood.extract_kml\<close>: the loop runs over \<^verbatim>\<open>os.listdir(td)\<close>.\<close>

definition extract_kml :: "unzipper \<Rightarrow> string \<Rightarrow> string \<Rightarrow> py_error + string" where
  "extract_kml unzip kmz_path td =
     (case unzip kmz_path td of
        Inl e \<Rightarrow> Inl e
      | Inr tree \<Rightarrow>
          (case find_kml_in td (listdir tree) of
             Some p \<Rightarrow> Inr p
           | None \<Rightarrow> Inl (FileNotFoundError ''No .kml inside KMZ'')))"

text \<open>\<^verbatim>\<open>read_kml_with_pyogrio.extract_kml\<close>: the loop runs over \<^verbatim>\<open>os.walk(td)\<close>.\<close>

definition pyogrio_extract_kml :: "unzipper \<Rightarrow> string \<Rightarrow> string \<Rightarrow> py_error + string" where
  "pyogrio_extract_kml unzip kmz_path td =
     (case unzip kmz_path td of
        Inl e \<Rightarrow> Inl e
      | Inr tree \<Rightarrow>
          (case find_kml_walk (walk td tree) of
             Some p \<Rightarrow> Inr p
           | None \<Rightarrow> Inl (FileNotFoundError ''No .kml inside KMZ'')))"

subsection \<open>Geometries and tables\<close>

text \<open>A coordinate tuple of a ring: \<open>(x, y)\<close> or \<open>(x, y, z)\<close>.\<close>

type_synonym coord = "real \<times> real \<times> real option"

record polygon =
  exterior :: "coord list"
  interiors :: "coord list list"

text \<open>
  The geometry types the loaders meet. Of the types that are not polygonal, the
  single-part ones are modelled; they have neither \<^verbatim>\<open>geoms\<close> nor \<^verbatim>\<open>exterior\<close>.
\<close>

datatype other_kind = Point | LineString | LinearRing

datatype geom = Polygon polygon | MultiPolygon "polygon list" | Other other_kind

fun kind_name :: "other_kind \<Rightarrow> string" where
  "kind_name Point = ''Point''"
| "kind_name LineString = ''LineString''"
| "kind_name LinearRing = ''LinearRing''"

fun geom_type :: "geom \<Rightarrow> string" where
  "geom_type (Polygon p) = ''Polygon''"
| "geom_type (MultiPolygon ps) = ''MultiPolygon''"
| "geom_type (Other k) = kind_name k"

datatype crs = EPSG nat

text \<open>
  A GeoDataFrame, row by row: the names of its numeric attribute columns, its records
  (the value of every column, and the geometry, which may be null) and its coordinate
  reference system, which may be absent.
\<close>

record row =
  attrs :: "string \<Rightarrow> real"
  geometry :: "geom option"

record geodataframe =
  columns :: "string list"
  rows :: "row list"
  crs :: "crs option"

subsection \<open>Reading the markup\<close>

text \<open>
  The reader (\<^verbatim>\<open>gpd.read_file\<close>, \<^verbatim>\<open>pyogrio.read_dataframe\<close>) is a parameter: given the
  path and the driver asked for (\<open>None\<close> when the call names none) it returns the
  exception raised or the table parsed.
\<close>

type_synonym reader = "string \<Rightarrow> string option \<Rightarrow> py_error + geodataframe"

text \<open>
  The \<^verbatim>\<open>try: read(path, driver="LIBKML") except Exception: read(path, ...)\<close> of all three
  scripts. The first component records the drivers handed to the reader, in call order.
\<close>

definition read_with_fallback ::
  "reader \<Rightarrow> string option \<Rightarrow> string \<Rightarrow> string option list \<times> (py_error + geodataframe)" where
  "read_with_fallback read_file secondary kml_path =
     (case read_file kml_path (Some ''LIBKML'') of
        Inr gdf \<Rightarrow> ([Some ''LIBKML''], Inr gdf)
      | Inl e \<Rightarrow> ([Some ''LIBKML'', secondary], read_file kml_path secondary))"

text \<open>\<^verbatim>\<open>gdf[gdf.geometry.notnull()]\<close>\<close>

definition filter_notnull :: "geodataframe \<Rightarrow> geodataframe" where
  "filter_notnull gdf = gdf\<lparr>rows := filter (\<lambda>r. geometry r \<noteq> None) (rows gdf)\<rparr>"

text \<open>\<^verbatim>\<open>gdf[gdf.geometry.geom_type.isin(["Polygon", "MultiPolygon"])]\<close>\<close>

definition is_polygonal :: "row \<Rightarrow> bool" where
  "is_polygonal r =
     (case geometry r of
        None \<Rightarrow> False
      | Some g \<Rightarrow> geom_type g \<in> set [''Polygon'', ''MultiPolygon''])"

definition filter_polygonal :: "geodataframe \<Rightarrow> geodataframe" where
  "filter_polygonal gdf = gdf\<lparr>rows := filter is_polygonal (rows gdf)\<rparr>"

text \<open>\<^verbatim>\<open>gdf.set_crs(epsg=4326, inplace=True)\<close>\<close>

definition set_crs :: "geodataframe \<Rightarrow> geodataframe" where
  "set_crs gdf = gdf\<lparr>crs := Some (EPSG 4326)\<rparr>"

text \<open>
  \<^verbatim>\<open>gdf.to_crs(epsg=4326)\<close> on a table whose reference system is \<open>src\<close>: every geometry
  goes through the library's transformation \<open>transform src (EPSG 4326)\<close>.
\<close>

definition to_crs ::
  "(crs \<Rightarrow> crs \<Rightarrow> geom \<Rightarrow> geom) \<Rightarrow> crs \<Rightarrow> geodataframe \<Rightarrow> geodataframe" where
  "to_crs transform src gdf =
     gdf\<lparr>rows := map (\<lambda>r. r\<lparr>geometry := map_option (transform src (EPSG 4326)) (geometry r)\<rparr>)
                     (rows gdf),
         crs := Some (EPSG 4326)\<rparr>"

text \<open>\<^verbatim>\<open>gdf["geometry"] = gdf["geometry"].buffer(0)\<close>\<close>

definition buffer_all :: "(geom \<Rightarrow> real \<Rightarrow> geom) \<Rightarrow> geodataframe \<Rightarrow> geodataframe" where
  "buffer_all buffer gdf =
     gdf\<lparr>rows := map (\<lambda>r. r\<lparr>geometry := map_option (\<lambda>g. buffer g 0) (geometry r)\<rparr>) (rows gdf)\<rparr>"

text \<open>\<^verbatim>\<open>gdf[gdf.geometry.is_valid]\<close>: a null geometry is not valid.\<close>

definition row_valid :: "(geom \<Rightarrow> bool) \<Rightarrow> row \<Rightarrow> bool" where
  "row_valid is_valid r = (case geometry r of None \<Rightarrow> False | Some g \<Rightarrow> is_valid g)"

definition filter_valid :: "(geom \<Rightarrow> bool) \<Rightarrow> geodataframe \<Rightarrow> geodataframe" where
  "filter_valid is_valid gdf = gdf\<lparr>rows := filter (row_valid is_valid) (rows gdf)\<rparr>"

text \<open>\<^verbatim>\<open>read_kmz_geopandas.read_kml_to_gdf\<close>, after the table has been parsed.\<close>

definition clean_gdf ::
  "(crs \<Rightarrow> crs \<Rightarrow> geom \<Rightarrow> geom) \<Rightarrow> (geom \<Rightarrow> real \<Rightarrow> geom) \<Rightarrow> (geom \<Rightarrow> bool) \<Rightarrow>
   geodataframe \<Rightarrow> geodataframe" where
  "clean_gdf transform buffer is_valid gdf0 =
     (let gdf1 = filter_notnull gdf0;
          gdf2 = filter_polygonal gdf1;
          gdf3 = (case crs gdf2 of
                    None \<Rightarrow> set_crs gdf2
                  | Some src \<Rightarrow> to_crs transform src gdf2);
          gdf4 = buffer_all buffer gdf3
      in filter_valid is_valid gdf4)"

definition read_kml_to_gdf ::
  "reader \<Rightarrow> (crs \<Rightarrow> crs \<Rightarrow> geom \<Rightarrow> geom) \<Rightarrow> (geom \<Rightarrow> real \<Rightarrow> geom) \<Rightarrow> (geom \<Rightarrow> bool) \<Rightarrow>
   string \<Rightarrow> string option list \<times> (py_error + geodataframe)" where
  "read_kml_to_gdf read_file transform buffer is_valid kml_path =
     (case read_with_fallback read_file (Some ''KML'') kml_path of
        (tried, Inl e) \<Rightarrow> (tried, Inl e)
      | (tried, Inr gdf) \<Rightarrow> (tried, Inr (clean_gdf transform buffer is_valid gdf)))"

text \<open>\<^verbatim>\<open>plot_kmz_flood.read_polygons\<close>: the fallback call names no driver.\<close>

definition polygons_of :: "geodataframe \<Rightarrow> geodataframe" where
  "polygons_of gdf0 =
     (let gdf1 = filter_notnull gdf0;
          gdf2 = filter_polygonal gdf1
      in if crs gdf2 = None then set_crs gdf2 else gdf2)"

definition read_polygons ::
  "reader \<Rightarrow> string \<Rightarrow> string option list \<times> (py_error + geodataframe)" where
  "read_polygons read_file kml_path =
     (case read_with_fallback read_file None kml_path of
        (tried, Inl e) \<Rightarrow> (tried, Inl e)
      | (tried, Inr gdf) \<Rightarrow> (tried, Inr (polygons_of gdf)))"

text \<open>
  The reading step of \<^verbatim>\<open>read_kml_with_pyogrio.main\<close>; the reader is
  \<^verbatim>\<open>pyogrio.read_dataframe\<close>.
\<close>

definition pyogrio_read :: "reader \<Rightarrow> string \<Rightarrow> string option list \<times> (py_error + geodataframe)" where
  "pyogrio_read read_dataframe kml = read_with_fallback read_dataframe (Some ''KML'') kml"

subsection \<open>Depth resolution and normalisation\<close>

text \<open>
  What \<^verbatim>\<open>plot_extruded_3d\<close> prints before it draws:
  \<^item> \<open>WarnEmpty\<close>: \<^verbatim>\<open>Warning: GeoDataFrame is empty ...\<close>;
  \<^item> \<open>UsingDepthColumn col\<close>: \<^verbatim>\<open>Using depth column: {col}\<close>;
  \<^item> \<open>NoDepthColumn\<close>: \<^verbatim>\<open>No depth column found - using random depths (0.5-3.0m) for visualization\<close>;
  \<^item> \<open>DepthRange lo hi\<close>: \<^verbatim>\<open>Depth range: {lo:.2f}m to {hi:.2f}m\<close>.
\<close>

datatype message = WarnEmpty | UsingDepthColumn string | NoDepthColumn | DepthRange real real

definition fallback_columns :: "string list" where
  "fallback_columns = [''depth'', ''DEPTH'', ''water_depth'', ''Depth'', ''flood_depth'']"

text \<open>\<^verbatim>\<open>gdf[col].values\<close>\<close>

definition column_values :: "geodataframe \<Rightarrow> string \<Rightarrow> real list" where
  "column_values gdf col = map (\<lambda>r. attrs r col) (rows gdf)"

text \<open>The \<^verbatim>\<open>for col in [...]: if col in gdf.columns: ... break\<close> loop.\<close>

fun first_present :: "string list \<Rightarrow> string list \<Rightarrow> string option" where
  "first_present [] cols = None"
| "first_present (c # cs) cols = (if c \<in> set cols then Some c else first_present cs cols)"

text \<open>
  The \<^verbatim>\<open>else\<close> branch of the depth lookup. \<open>uniform lo hi n\<close> stands for
  \<^verbatim>\<open>np.random.uniform(lo, hi, n)\<close>.
\<close>

definition fallback_depths ::
  "(real \<Rightarrow> real \<Rightarrow> nat \<Rightarrow> real list) \<Rightarrow> geodataframe \<Rightarrow> message list \<times> real list" where
  "fallback_depths uniform gdf =
     (case first_present fallback_columns (columns gdf) of
        Some col \<Rightarrow> ([UsingDepthColumn col], column_values gdf col)
      | None \<Rightarrow> ([NoDepthColumn], uniform 0.5 3.0 (length (rows gdf))))"

text \<open>
  \<^verbatim>\<open>if depth_column and depth_column in gdf.columns\<close>: \<open>None\<close> and the empty string are
  both false in Python.
\<close>

definition resolve_depths ::
  "(real \<Rightarrow> real \<Rightarrow> nat \<Rightarrow> real list) \<Rightarrow> geodataframe \<Rightarrow> string option \<Rightarrow>
   message list \<times> real list" where
  "resolve_depths uniform gdf depth_column =
     (case depth_column of
        None \<Rightarrow> fallback_depths uniform gdf
      | Some c \<Rightarrow>
          (if c \<noteq> [] \<and> c \<in> set (columns gdf) then ([], column_values gdf c)
           else fallback_depths uniform gdf))"

text \<open>\<^verbatim>\<open>np.min\<close> and \<^verbatim>\<open>np.max\<close> raise \<^verbatim>\<open>ValueError\<close> on an array of size zero.\<close>

definition np_min :: "real list \<Rightarrow> py_error + real" where
  "np_min vs = (case vs of [] \<Rightarrow> Inl ValueError | v # rest \<Rightarrow> Inr (fold min rest v))"

definition np_max :: "real list \<Rightarrow> py_error + real" where
  "np_max vs = (case vs of [] \<Rightarrow> Inl ValueError | v # rest \<Rightarrow> Inr (fold max rest v))"

text \<open>
  Element-wise division of an array by a scalar. numpy answers a division by zero with
  \<open>inf\<close> or \<open>nan\<close> and a warning; the model marks that outcome as \<open>FloatingPointError\<close>.
\<close>

definition np_divide :: "real list \<Rightarrow> real \<Rightarrow> py_error + real list" where
  "np_divide vs d = (if d = 0 then Inl FloatingPointError else Inr (map (\<lambda>v. v / d) vs))"

text \<open>\<^verbatim>\<open>np.ones_like(depths)\<close>\<close>

definition ones_like :: "real list \<Rightarrow> real list" where
  "ones_like vs = replicate (length vs) 1"

definition normalize_depths :: "real list \<Rightarrow> real \<Rightarrow> real \<Rightarrow> py_error + real list" where
  "normalize_depths depths min_depth max_depth =
     (if max_depth > min_depth
      then np_divide (map (\<lambda>d. d - min_depth) depths) (max_depth - min_depth)
      else Inr (map (\<lambda>one. one * 0.5) (ones_like depths)))"

subsection \<open>Colours\<close>

record style =
  water_rgba :: "real list"
  side_rgba :: "real list"
  edge_color :: "real list"

definition colour_position :: "real \<Rightarrow> real" where
  "colour_position norm_depth = 0.4 + norm_depth * 0.6"

text \<open>\<open>Blues\<close> stands for \<^verbatim>\<open>plt.cm.Blues\<close>, from a position to an RGBA tuple.\<close>

definition feature_style :: "(real \<Rightarrow> real list) \<Rightarrow> real \<Rightarrow> style" where
  "feature_style Blues norm_depth =
     (let water_color = Blues (colour_position norm_depth)
      in \<lparr>water_rgba = take 3 water_color @ [0.7],
          side_rgba = map (\<lambda>c. c * 0.7) (take 3 water_color) @ [0.6],
          edge_color = map (\<lambda>c. if c * 1.2 \<le> 1 then c * 1.2 else 1) (take 3 water_color)\<rparr>)"

subsection \<open>The mesh\<close>

type_synonym point3 = "real \<times> real \<times> real"

datatype colour = RGBA "real list" | Named string

text \<open>One \<^verbatim>\<open>Poly3DCollection\<close> added to the axes.\<close>

record collection3d =
  faces :: "point3 list list"
  facecolor :: colour
  alpha :: real
  linewidths :: real
  edgecolor :: "real list option"

text \<open>One \<^verbatim>\<open>ax.text\<close>; the text shown is the depth, formatted.\<close>

record label =
  anchor :: point3
  shown_depth :: real

definition base_z :: real where
  "base_z = 0.0"

definition coord_x :: "coord \<Rightarrow> real" where
  "coord_x c = fst c"

definition coord_y :: "coord \<Rightarrow> real" where
  "coord_y c = fst (snd c)"

text \<open>
  The body of \<^verbatim>\<open>for i in range(n - 1)\<close>, and the loop itself; \<open>n - 1\<close> is subtraction of
  natural numbers here, so for \<open>n = 0\<close> the range is empty, as Python's \<^verbatim>\<open>range(-1)\<close> is.
\<close>

definition quad :: "coord list \<Rightarrow> real \<Rightarrow> nat \<Rightarrow> point3 list" where
  "quad coords h i =
     (let x0 = coord_x (coords ! i); y0 = coord_y (coords ! i);
          x1 = coord_x (coords ! (i + 1)); y1 = coord_y (coords ! (i + 1))
      in [(x0, y0, base_z), (x1, y1, base_z), (x1, y1, base_z + h), (x0, y0, base_z + h)])"

definition side_quads :: "coord list \<Rightarrow> real \<Rightarrow> point3 list list" where
  "side_quads coords h = map (quad coords h) [0 ..< length coords - 1]"

text \<open>What one pass of \<^verbatim>\<open>for poly in polys\<close> adds to the axes and to \<^verbatim>\<open>xs\<close>, \<^verbatim>\<open>ys\<close>.\<close>

record drawn =
  collections :: "collection3d list"
  labels :: "label list"
  seen_x :: "real list"
  seen_y :: "real list"

definition nothing_drawn :: drawn where
  "nothing_drawn = \<lparr>collections = [], labels = [], seen_x = [], seen_y = []\<rparr>"

definition draw_more :: "drawn \<Rightarrow> drawn \<Rightarrow> drawn" where
  "draw_more a b =
     \<lparr>collections = collections a @ collections b, labels = labels a @ labels b,
      seen_x = seen_x a @ seen_x b, seen_y = seen_y a @ seen_y b\<rparr>"

definition extrude_poly ::
  "(polygon \<Rightarrow> real \<times> real) \<Rightarrow> bool \<Rightarrow> style \<Rightarrow> real \<Rightarrow> polygon \<Rightarrow> drawn" where
  "extrude_poly centroid show_depth_labels st depth poly =
     (let coords = exterior poly;
          x = map coord_x coords;
          y = map coord_y coords;
          actual_extrude_h = depth * 0.05;
          top = map (\<lambda>(xi, yi). (xi, yi, base_z + actual_extrude_h)) (zip x y);
          bottom = map (\<lambda>(xi, yi). (xi, yi, base_z)) (zip x y);
          poly_top = \<lparr>faces = [top], facecolor = RGBA (water_rgba st), alpha = 0.7,
                      linewidths = 0.8, edgecolor = Some (edge_color st)\<rparr>;
          poly_bottom = \<lparr>faces = [bottom], facecolor = Named ''#1a1a1a'', alpha = 0.3,
                         linewidths = 0, edgecolor = None\<rparr>;
          poly_sides = \<lparr>faces = side_quads coords actual_extrude_h,
                        facecolor = RGBA (side_rgba st), alpha = 0.6,
                        linewidths = 0.3, edgecolor = Some (edge_color st)\<rparr>
      in \<lparr>collections = [poly_top, poly_bottom, poly_sides],
          labels = (if show_depth_labels
                    then [\<lparr>anchor = (fst (centroid poly), snd (centroid poly),
                                      base_z + actual_extrude_h + 0.02),
                           shown_depth = depth\<rparr>]
                    else []),
          seen_x = x, seen_y = y\<rparr>)"

fun extrude_polys ::
  "(polygon \<Rightarrow> real \<times> real) \<Rightarrow> bool \<Rightarrow> style \<Rightarrow> real \<Rightarrow> polygon list \<Rightarrow> drawn" where
  "extrude_polys centroid lab st depth [] = nothing_drawn"
| "extrude_polys centroid lab st depth (poly # polys) =
     draw_more (extrude_poly centroid lab st depth poly)
               (extrude_polys centroid lab st depth polys)"

text \<open>
  \<^verbatim>\<open>polys = [geom] if geom.geom_type == "Polygon" else list(geom.geoms)\<close>, followed by
  \<^verbatim>\<open>poly.exterior\<close>: a null geometry has no \<^verbatim>\<open>geom_type\<close>, and a point, a line or a ring
  has no \<^verbatim>\<open>geoms\<close>.
\<close>

fun polys_of :: "geom option \<Rightarrow> py_error + polygon list" where
  "polys_of None = Inl AttributeError"
| "polys_of (Some (Polygon p)) = Inr [p]"
| "polys_of (Some (MultiPolygon ps)) = Inr ps"
| "polys_of (Some (Other k)) = Inl AttributeError"

definition py_index :: "'a list \<Rightarrow> nat \<Rightarrow> py_error + 'a" where
  "py_index vs i = (if i < length vs then Inr (vs ! i) else Inl IndexError)"

text \<open>One pass of \<^verbatim>\<open>for idx, geom in enumerate(gdf.geometry)\<close>.\<close>

definition render_feature ::
  "(real \<Rightarrow> real list) \<Rightarrow> (polygon \<Rightarrow> real \<times> real) \<Rightarrow> bool \<Rightarrow> real list \<Rightarrow> real list \<Rightarrow>
   nat \<Rightarrow> geom option \<Rightarrow> py_error + drawn" where
  "render_feature Blues centroid lab depths normalized_depths idx g =
     (case polys_of g of
        Inl e \<Rightarrow> Inl e
      | Inr polys \<Rightarrow>
          (case py_index depths idx of
             Inl e \<Rightarrow> Inl e
           | Inr depth \<Rightarrow>
               (case py_index normalized_depths idx of
                  Inl e \<Rightarrow> Inl e
                | Inr norm_depth \<Rightarrow>
                    Inr (extrude_polys centroid lab (feature_style Blues norm_depth) depth polys))))"

text \<open>
  The whole loop, from index \<open>idx\<close> on. An exception leaves the function, so what had
  been drawn before it is not part of the result.
\<close>

fun render_features ::
  "(real \<Rightarrow> real list) \<Rightarrow> (polygon \<Rightarrow> real \<times> real) \<Rightarrow> bool \<Rightarrow> real list \<Rightarrow> real list \<Rightarrow>
   nat \<Rightarrow> geom option list \<Rightarrow> py_error + drawn" where
  "render_features Blues centroid lab depths normalized_depths idx [] = Inr nothing_drawn"
| "render_features Blues centroid lab depths normalized_depths idx (g # gs) =
     (case render_feature Blues centroid lab depths normalized_depths idx g of
        Inl e \<Rightarrow> Inl e
      | Inr d \<Rightarrow>
          (case render_features Blues centroid lab depths normalized_depths (Suc idx) gs of
             Inl e \<Rightarrow> Inl e
           | Inr ds \<Rightarrow> Inr (draw_more d ds)))"

subsection \<open>Axis limits\<close>

type_synonym limits = "(real \<times> real) \<times> (real \<times> real) \<times> (real \<times> real)"

text \<open>Python's \<^verbatim>\<open>min\<close> and \<^verbatim>\<open>max\<close> of a list, used on non-empty lists only.\<close>

definition list_min :: "real list \<Rightarrow> real" where
  "list_min vs = fold min (tl vs) (hd vs)"

definition list_max :: "real list \<Rightarrow> real" where
  "list_max vs = fold max (tl vs) (hd vs)"

text \<open>The block under \<^verbatim>\<open>if xs and ys\<close>; \<open>None\<close> when the limits are not set.\<close>

definition data_limits :: "real list \<Rightarrow> real list \<Rightarrow> real \<Rightarrow> limits option" where
  "data_limits px py max_depth =
     (if px \<noteq> [] \<and> py \<noteq> []
      then (let margin = (if length px > 1 \<and> length py > 1
                          then 0.01 * max (list_max px - list_min px) (list_max py - list_min py)
                          else 0.001)
            in Some ((list_min px - margin, list_max px + margin),
                     (list_min py - margin, list_max py + margin),
                     (- 0.02, max_depth * 0.06)))
      else None)"

text \<open>\<^verbatim>\<open>_set_axes_equal\<close>, as a function of the limits it reads.\<close>

definition set_axes_equal :: "limits \<Rightarrow> limits" where
  "set_axes_equal lims =
     (case lims of (x_limits, y_limits, z_limits) \<Rightarrow>
        (let x_range = \<bar>snd x_limits - fst x_limits\<bar>;
             x_middle = (fst x_limits + snd x_limits) / 2;
             y_range = \<bar>snd y_limits - fst y_limits\<bar>;
             y_middle = (fst y_limits + snd y_limits) / 2;
             z_range = \<bar>snd z_limits - fst z_limits\<bar>;
             z_middle = (fst z_limits + snd z_limits) / 2;
             plot_radius = 0.5 * list_max [x_range, y_range, z_range]
         in ((x_middle - plot_radius, x_middle + plot_radius),
             (y_middle - plot_radius, y_middle + plot_radius),
             (z_middle - plot_radius, z_middle + plot_radius))))"

subsection \<open>The renderer\<close>

text \<open>
  The scene handed to matplotlib: the collections and labels added to the axes, and the
  limits set from the data (\<open>None\<close> when no vertex was seen and the library's defaults
  stay in force), before and after \<^verbatim>\<open>_set_axes_equal\<close>.
\<close>

record scene =
  meshes :: "collection3d list"
  texts :: "label list"
  data_lims :: "limits option"
  equal_lims :: "limits option"

text \<open>
  \<^verbatim>\<open>plot_extruded_3d\<close> up to \<^verbatim>\<open>_set_axes_equal(ax)\<close>; saving, animation and display are
  left to matplotlib. The result is what was printed, and the exception raised or the
  scene built. \<open>gdf\<close> may be \<^verbatim>\<open>None\<close>, which the first test of the source allows for.
\<close>

definition plot_extruded_3d ::
  "(real \<Rightarrow> real list) \<Rightarrow> (real \<Rightarrow> real \<Rightarrow> nat \<Rightarrow> real list) \<Rightarrow> (polygon \<Rightarrow> real \<times> real) \<Rightarrow>
   geodataframe option \<Rightarrow> bool \<Rightarrow> string option \<Rightarrow> message list \<times> (py_error + scene)" where
  "plot_extruded_3d Blues uniform centroid gdf_opt show_depth_labels depth_column =
     (case gdf_opt of
        None \<Rightarrow> ([WarnEmpty], Inl AttributeError)
      | Some gdf \<Rightarrow>
          (let warned = (if length (rows gdf) = 0 then [WarnEmpty] else []);
               said = warned @ fst (resolve_depths uniform gdf depth_column);
               depths = snd (resolve_depths uniform gdf depth_column)
           in case np_min depths of
                Inl e \<Rightarrow> (said, Inl e)
              | Inr min_depth \<Rightarrow>
                  (case np_max depths of
                     Inl e \<Rightarrow> (said, Inl e)
                   | Inr max_depth \<Rightarrow>
                       (case normalize_depths depths min_depth max_depth of
                          Inl e \<Rightarrow> (said, Inl e)
                        | Inr normalized_depths \<Rightarrow>
                            (case render_features Blues centroid show_depth_labels depths
                                    normalized_depths 0 (map geometry (rows gdf)) of
                               Inl e \<Rightarrow> (said @ [DepthRange min_depth max_depth], Inl e)
                             | Inr d \<Rightarrow>
                                 (said @ [DepthRange min_depth max_depth],
                                  Inr \<lparr>meshes = collections d, texts = labels d,
                                       data_lims = data_limits (seen_x d) (seen_y d) max_depth,
                                       equal_lims = map_option set_axes_equal
                                         (data_limits (seen_x d) (seen_y d) max_depth)\<rparr>))))))"


subsection \<open>Notions used in the statements\<close>

text \<open>Every file name in the workspace, at any depth.\<close>

fun tree_files :: "entry list \<Rightarrow> string list" where
  "tree_files [] = []"
| "tree_files (File n # es) = n # tree_files es"
| "tree_files (Dir n sub # es) = tree_files sub @ tree_files es"



text \<open>The same geometry, or table, with the holes of every polygon \<open>p\<close> replaced by \<open>f p\<close>.\<close>

definition with_interiors :: "(polygon \<Rightarrow> coord list list) \<Rightarrow> geom \<Rightarrow> geom" where
  "with_interiors f g =
     (case g of
        Polygon p \<Rightarrow> Polygon (p\<lparr>interiors := f p\<rparr>)
      | MultiPolygon ps \<Rightarrow> MultiPolygon (map (\<lambda>p. p\<lparr>interiors := f p\<rparr>) ps)
      | Other k \<Rightarrow> Other k)"

definition refill :: "(polygon \<Rightarrow> coord list list) \<Rightarrow> geodataframe \<Rightarrow> geodataframe" where
  "refill f gdf =
     gdf\<lparr>rows := map (\<lambda>r. r\<lparr>geometry := map_option (with_interiors f) (geometry r)\<rparr>) (rows gdf)\<rparr>"

text \<open>What of a drawing is mesh and axis data: the collections and the coordinates seen.\<close>

definition outline :: "drawn \<Rightarrow> collection3d list \<times> real list \<times> real list" where
  "outline d = (collections d, seen_x d, seen_y d)"

definition mesh_and_limits :: "scene \<Rightarrow> collection3d list \<times> limits option \<times> limits option" where
  "mesh_and_limits sc = (meshes sc, data_lims sc, equal_lims sc)"

subsection \<open>Sample inputs\<close>

text \<open>A closed unit square, and a closed ring whose first two edges cross (a bow tie).\<close>

definition square :: polygon where
  "square = \<lparr>exterior = [(0, 0, None), (1, 0, None), (1, 1, None), (0, 1, None), (0, 0, None)],
             interiors = []\<rparr>"

definition bowtie :: polygon where
  "bowtie = \<lparr>exterior = [(0, 0, None), (1, 1, None), (1, 0, None), (0, 1, None), (0, 0, None)],
             interiors = []\<rparr>"

text \<open>A table without attribute columns, one record per geometry.\<close>

definition table_of :: "crs option \<Rightarrow> geom option list \<Rightarrow> geodataframe" where
  "table_of c gs =
     \<lparr>columns = [], rows = map (\<lambda>g. \<lparr>attrs = (\<lambda>n. 0), geometry = g\<rparr>) gs, crs = c\<rparr>"

text \<open>Stand-ins for the library: a colour map, a sampler and a centroid.\<close>

definition grey_ramp :: "real \<Rightarrow> real list" where
  "grey_ramp v = [1 - v, 1 - v, 1 - v, 1]"

definition lowest_sample :: "real \<Rightarrow> real \<Rightarrow> nat \<Rightarrow> real list" where
  "lowest_sample lo hi n = replicate n lo"

definition first_vertex :: "polygon \<Rightarrow> real \<times> real" where
  "first_vertex p = (case exterior p of [] \<Rightarrow> (0, 0) | c # cs \<Rightarrow> (coord_x c, coord_y c))"

text \<open>A table with two depth-like columns.\<close>

definition depth_table :: geodataframe where
  "depth_table =
     \<lparr>columns = [''flood_depth'', ''Depth''],
      rows = [\<lparr>attrs = (\<lambda>c. if c = ''Depth'' then 1 else if c = ''flood_depth'' then 2 else 0),
               geometry = Some (Polygon square)\<rparr>,
              \<lparr>attrs = (\<lambda>c. if c = ''Depth'' then 3 else if c = ''flood_depth'' then 4 else 0),
               geometry = Some (Polygon square)\<rparr>],
      crs = Some (EPSG 4326)\<rparr>"

text \<open>
  Stand-ins for the geometry library and the readers: a reprojection and a buffer that
  change nothing, a buffer that splits the bow tie into its two triangles, a validity
  test that rejects the bow tie only, a reader that fails whatever the driver, and one
  that fails for \<^verbatim>\<open>LIBKML\<close> only.
\<close>

definition keep_geom :: "crs \<Rightarrow> crs \<Rightarrow> geom \<Rightarrow> geom" where
  "keep_geom src dst g = g"

definition no_repair :: "geom \<Rightarrow> real \<Rightarrow> geom" where
  "no_repair g d = g"

definition split_bowtie :: "geom \<Rightarrow> real \<Rightarrow> geom" where
  "split_bowtie g d =
     (if g = Polygon bowtie
      then MultiPolygon
             [\<lparr>exterior = [(0, 0, None), (0.5, 0.5, None), (0, 1, None), (0, 0, None)],
               interiors = []\<rparr>,
              \<lparr>exterior = [(0.5, 0.5, None), (1, 0, None), (1, 1, None), (0.5, 0.5, None)],
               interiors = []\<rparr>]
      else g)"

definition not_bowtie :: "geom \<Rightarrow> bool" where
  "not_bowtie g = (g \<noteq> Polygon bowtie)"

definition failing_reader :: reader where
  "failing_reader p d =
     (case d of
        None \<Rightarrow> Inl (LibraryError ''no driver could open the file'')
      | Some n \<Rightarrow> Inl (LibraryError (n @ '' cannot open the file'')))"

definition kml_only_reader :: "geodataframe \<Rightarrow> reader" where
  "kml_only_reader t p d = (if d = Some ''LIBKML'' then Inl (LibraryError ''unsupported driver'') else Inr t)"

section \<open>Properties\<close>

subsection \<open>Locating the markup file\<close>

lemma find_kml_in_None: "find_kml_in dir fs = None \<longleftrightarrow> \<not> list_ex is_kml fs"
  by (induction fs) auto

lemma find_kml_walk_append:
  "find_kml_walk (a @ b) = (case find_kml_walk a of Some p \<Rightarrow> Some p | None \<Rightarrow> find_kml_walk b)"
  by (induction a rule: find_kml_walk.induct) (auto split: option.splits)

lemma walk_None:
  "(find_kml_walk (walk tp es) = None) = (\<not> list_ex is_kml (tree_files es))"
  "(find_kml_walk (walk_dirs tp es) = None \<and> \<not> list_ex is_kml (files_of es))
     = (\<not> list_ex is_kml (tree_files es))"
proof (induction tp es rule: walk_walk_dirs.induct)
  case (1 tp es)
  have "(find_kml_in tp (files_of es) = None) = (\<not> list_ex is_kml (files_of es))"
    by (rule find_kml_in_None)
  with 1 show ?case by (cases "find_kml_in tp (files_of es)") auto
next
  case (2 tp)
  then show ?case by simp
next
  case (3 tp n es)
  then show ?case by auto
next
  case (4 tp n sub es)
  then show ?case by (auto simp: find_kml_walk_append split: option.splits)
qed

text \<open>
  The recursive search of \<^verbatim>\<open>read_kmz_geopandas\<close> fails exactly when no file of the
  workspace, at any depth, has the extension.
\<close>

lemma extract_kml_from_kmz_not_found:
  "path_exists kmz \<Longrightarrow> unzip kmz td = Inr tree \<Longrightarrow>
   (extract_kml_from_kmz path_exists unzip kmz td = Inl (FileNotFoundError ''No .kml inside KMZ''))
     = (\<not> list_ex is_kml (tree_files tree))"
  using walk_None(1)[of td tree]
  by (auto simp: extract_kml_from_kmz_def split: option.splits)

text \<open>
  C9. The loader is to search the workspace recursively and to fail only when no file
  anywhere in it ends in \<^verbatim>\<open>.kml\<close>. On an archive whose markup lies in a sub-directory,
  \<^verbatim>\<open>plot_kmz_flood.extract_kml\<close>, which lists the top directory only, raises
  \<^verbatim>\<open>FileNotFoundError\<close>, while the two other scripts return the nested file.
\<close>

theorem extract_kml_misses_nested_markup:
  "extract_kml (\<lambda>p d. Inr [Dir ''doc'' [File ''doc.kml'']]) ''flood.kmz'' ''td''
     = Inl (FileNotFoundError ''No .kml inside KMZ'')
   \<and> extract_kml_from_kmz (\<lambda>p. True) (\<lambda>p d. Inr [Dir ''doc'' [File ''doc.kml'']])
        ''flood.kmz'' ''td''
     = Inr ''td/doc/doc.kml''
   \<and> pyogrio_extract_kml (\<lambda>p d. Inr [Dir ''doc'' [File ''doc.kml'']]) ''flood.kmz'' ''td''
     = Inr ''td/doc/doc.kml''"
  by (simp add: extract_kml_def extract_kml_from_kmz_def pyogrio_extract_kml_def listdir_def
      is_kml_def lower_def lower_char_def endswith_def path_join_def)

subsection \<open>Minimum, maximum and normalisation\<close>











text \<open>
  C5. For a non-empty depth collection whose minimum equals its maximum, every record
  is normalised to the midpoint 0.5; and whatever the bounds, the normalisation never
  divides by zero.
\<close>

theorem equal_depths_normalize_to_midpoint:
  "np_min depths = Inr m \<Longrightarrow> np_max depths = Inr m \<Longrightarrow>
     depths \<noteq> [] \<and>
     normalize_depths depths m m = Inr (replicate (length depths) 0.5) \<and>
     (\<forall>lo hi. normalize_depths depths lo hi \<noteq> Inl FloatingPointError)"
  by (auto simp: normalize_depths_def np_divide_def ones_like_def np_min_def map_replicate_const)

theorem equal_depths_normalize_to_midpoint_witness:
  "np_min [2, 2, 2] = Inr 2 \<and> np_max [2, 2, 2] = Inr 2 \<and>
   normalize_depths [2, 2, 2] 2 2 = Inr [0.5, 0.5, 0.5]"
proof -
  have lo: "np_min [2, 2, 2] = Inr 2" by (simp add: np_min_def)
  have hi: "np_max [2, 2, 2] = Inr 2" by (simp add: np_max_def)
  have "replicate (length [2, 2, 2 :: real]) (0.5 :: real) = [0.5, 0.5, 0.5]"
    by (simp add: numeral_3_eq_3)
  with equal_depths_normalize_to_midpoint[OF lo hi] lo hi show ?thesis by simp
qed

subsection \<open>Depth to colour\<close>




subsection \<open>The extrusion mesh\<close>















subsection \<open>Which depths are drawn\<close>

lemma first_present_None: "(first_present cs cols = None) = (set cs \<inter> set cols = {})"
  by (induction cs) auto

lemma first_present_split:
  "cs = pre @ col # post \<Longrightarrow> col \<in> set cols \<Longrightarrow> set pre \<inter> set cols = {} \<Longrightarrow>
   first_present cs cols = Some col"
  by (induction pre arbitrary: cs) auto

lemma fallback_depths_first:
  "fallback_columns = pre @ col # post \<Longrightarrow> col \<in> set (columns gdf) \<Longrightarrow>
   set pre \<inter> set (columns gdf) = {} \<Longrightarrow>
   fallback_depths uniform gdf = ([UsingDepthColumn col], column_values gdf col)"
  by (simp add: fallback_depths_def first_present_split)

lemma fallback_depths_none:
  "set fallback_columns \<inter> set (columns gdf) = {} \<Longrightarrow>
   fallback_depths uniform gdf = ([NoDepthColumn], uniform 0.5 3.0 (length (rows gdf)))"
  using first_present_None[of fallback_columns "columns gdf"]
  by (simp add: fallback_depths_def)

lemma fallback_depths_flag:
  "(NoDepthColumn \<in> set (fst (fallback_depths uniform gdf)))
     = (set fallback_columns \<inter> set (columns gdf) = {})"
  using first_present_None[of fallback_columns "columns gdf"]
  by (cases "first_present fallback_columns (columns gdf)") (simp_all add: fallback_depths_def)

lemma resolve_unspecified:
  "\<not> (\<exists>c. depth_column = Some c \<and> c \<noteq> [] \<and> c \<in> set (columns gdf)) \<Longrightarrow>
   resolve_depths uniform gdf depth_column = fallback_depths uniform gdf"
  by (cases depth_column) (auto simp: resolve_depths_def)

lemma resolve_specified:
  "depth_column = Some c \<Longrightarrow> c \<noteq> [] \<Longrightarrow> c \<in> set (columns gdf) \<Longrightarrow>
   resolve_depths uniform gdf depth_column = ([], column_values gdf c)"
  by (simp add: resolve_depths_def)

lemma plot_said:
  "(NoDepthColumn \<in> set (fst (plot_extruded_3d Blues uniform centroid (Some gdf) lab depth_column)))
     = (NoDepthColumn \<in> set (fst (resolve_depths uniform gdf depth_column)))"
  by (auto simp: plot_extruded_3d_def Let_def split: sum.splits)

text \<open>
  C7. The depths come from the column the caller names, when a name is given (not
  \<^verbatim>\<open>None\<close>, not empty) and the table has that column; otherwise from the first of
  \<^verbatim>\<open>depth\<close>, \<^verbatim>\<open>DEPTH\<close>, \<^verbatim>\<open>water_depth\<close>, \<^verbatim>\<open>Depth\<close>, \<^verbatim>\<open>flood_depth\<close> that the table has;
  otherwise from \<^verbatim>\<open>np.random.uniform(0.5, 3.0, len(gdf))\<close>, one value per record. The
  message that announces random depths is printed in the last case and in no other.
\<close>

theorem depth_resolution_policy:
  "(depth_column = Some c \<and> c \<noteq> [] \<and> c \<in> set (columns gdf) \<longrightarrow>
      resolve_depths uniform gdf depth_column = ([], column_values gdf c))
   \<and> (\<not> (\<exists>c. depth_column = Some c \<and> c \<noteq> [] \<and> c \<in> set (columns gdf)) \<longrightarrow>
        (\<forall>pre col post.
            [''depth'', ''DEPTH'', ''water_depth'', ''Depth'', ''flood_depth''] = pre @ col # post \<and>
            col \<in> set (columns gdf) \<and> set pre \<inter> set (columns gdf) = {} \<longrightarrow>
            resolve_depths uniform gdf depth_column
              = ([UsingDepthColumn col], column_values gdf col))
        \<and> (set [''depth'', ''DEPTH'', ''water_depth'', ''Depth'', ''flood_depth'']
              \<inter> set (columns gdf) = {} \<longrightarrow>
            resolve_depths uniform gdf depth_column
              = ([NoDepthColumn], uniform 0.5 3.0 (length (rows gdf)))))
   \<and> ((NoDepthColumn \<in> set (fst (plot_extruded_3d Blues uniform centroid (Some gdf) lab depth_column)))
        = (\<not> (\<exists>c. depth_column = Some c \<and> c \<noteq> [] \<and> c \<in> set (columns gdf))
           \<and> set [''depth'', ''DEPTH'', ''water_depth'', ''Depth'', ''flood_depth'']
               \<inter> set (columns gdf) = {}))"
proof -
  let ?names = "[''depth'', ''DEPTH'', ''water_depth'', ''Depth'', ''flood_depth'']"
  have names: "fallback_columns = ?names" by (simp add: fallback_columns_def)
  have one: "depth_column = Some c \<and> c \<noteq> [] \<and> c \<in> set (columns gdf) \<longrightarrow>
      resolve_depths uniform gdf depth_column = ([], column_values gdf c)"
    using resolve_specified by blast
  have two: "resolve_depths uniform gdf depth_column = ([UsingDepthColumn col], column_values gdf col)"
    if "\<not> (\<exists>c. depth_column = Some c \<and> c \<noteq> [] \<and> c \<in> set (columns gdf))"
      and "?names = pre @ col # post" and "col \<in> set (columns gdf)"
      and "set pre \<inter> set (columns gdf) = {}"
    for pre col post
    using that resolve_unspecified[OF that(1)] fallback_depths_first[of pre col post gdf uniform]
    unfolding names by simp
  have three: "resolve_depths uniform gdf depth_column
              = ([NoDepthColumn], uniform 0.5 3.0 (length (rows gdf)))"
    if "\<not> (\<exists>c. depth_column = Some c \<and> c \<noteq> [] \<and> c \<in> set (columns gdf))"
      and "set ?names \<inter> set (columns gdf) = {}"
    using that resolve_unspecified[OF that(1)] fallback_depths_none[of gdf uniform]
    unfolding names by simp
  have four: "(NoDepthColumn \<in> set (fst (plot_extruded_3d Blues uniform centroid (Some gdf) lab depth_column)))
        = (\<not> (\<exists>c. depth_column = Some c \<and> c \<noteq> [] \<and> c \<in> set (columns gdf))
           \<and> set ?names \<inter> set (columns gdf) = {})"
  proof (cases "\<exists>c. depth_column = Some c \<and> c \<noteq> [] \<and> c \<in> set (columns gdf)")
    case True
    then obtain c where "depth_column = Some c" "c \<noteq> []" "c \<in> set (columns gdf)" by blast
    from resolve_specified[OF this] True show ?thesis by (simp add: plot_said)
  next
    case False
    from resolve_unspecified[OF False] False show ?thesis
      using fallback_depths_flag[of uniform gdf] unfolding names by (simp add: plot_said)
  qed
  show ?thesis using one two three four by blast
qed


theorem depth_resolution_policy_witness:
  "resolve_depths lowest_sample depth_table (Some ''flood_depth'') = ([], [2, 4])
   \<and> resolve_depths lowest_sample depth_table None = ([UsingDepthColumn ''Depth''], [1, 3])
   \<and> resolve_depths lowest_sample (table_of None [Some (Polygon square), Some (Polygon square)]) None
       = ([NoDepthColumn], [0.5, 0.5])
   \<and> NoDepthColumn \<in> set (fst (plot_extruded_3d grey_ramp lowest_sample first_vertex
         (Some (table_of None [Some (Polygon square), Some (Polygon square)])) False None))"
proof -
  let ?names = "[''depth'', ''DEPTH'', ''water_depth'', ''Depth'', ''flood_depth'']"
  let ?T = "table_of None [Some (Polygon square), Some (Polygon square)]"
  have a0: "Some ''flood_depth'' = Some ''flood_depth'' \<and> ''flood_depth'' \<noteq> []
              \<and> ''flood_depth'' \<in> set (columns depth_table)"
    by (simp add: depth_table_def)
  have a: "resolve_depths lowest_sample depth_table (Some ''flood_depth'')
             = ([], column_values depth_table ''flood_depth'')"
    using depth_resolution_policy[of "Some ''flood_depth''" "''flood_depth''" depth_table lowest_sample]
      a0 by blast
  have b0: "\<not> (\<exists>c. (None :: string option) = Some c \<and> c \<noteq> [] \<and> c \<in> set (columns depth_table))"
    by simp
  have b1: "?names = [''depth'', ''DEPTH'', ''water_depth''] @ ''Depth'' # [''flood_depth'']
             \<and> ''Depth'' \<in> set (columns depth_table)
             \<and> set [''depth'', ''DEPTH'', ''water_depth''] \<inter> set (columns depth_table) = {}"
    by (simp add: depth_table_def)
  have b: "resolve_depths lowest_sample depth_table None
             = ([UsingDepthColumn ''Depth''], column_values depth_table ''Depth'')"
    using depth_resolution_policy[of None _ depth_table lowest_sample] b0 b1 by blast
  have c0: "\<not> (\<exists>c. (None :: string option) = Some c \<and> c \<noteq> [] \<and> c \<in> set (columns ?T))"
    by simp
  have c1: "set ?names \<inter> set (columns ?T) = {}" by (simp add: table_of_def)
  have c: "resolve_depths lowest_sample ?T None
             = ([NoDepthColumn], lowest_sample 0.5 3.0 (length (rows ?T)))"
    using depth_resolution_policy[of None _ ?T lowest_sample] c0 c1 by blast
  have d: "NoDepthColumn \<in> set (fst (plot_extruded_3d grey_ramp lowest_sample first_vertex
         (Some ?T) False None))"
    using depth_resolution_policy[of None _ ?T lowest_sample grey_ramp first_vertex False] c0 c1
    by blast
  have va: "column_values depth_table ''flood_depth'' = [2, 4]"
    by (simp add: column_values_def depth_table_def)
  have vb: "column_values depth_table ''Depth'' = [1, 3]"
    by (simp add: column_values_def depth_table_def)
  have vc: "lowest_sample 0.5 3.0 (length (rows ?T)) = [0.5, 0.5]"
    by (simp add: lowest_sample_def table_of_def numeral_2_eq_2)
  show ?thesis using a b c d unfolding va vb vc by blast
qed


subsection \<open>Interior rings\<close>

lemma outline_extrude_poly:
  "outline (extrude_poly centroid lab st depth (poly\<lparr>interiors := holes\<rparr>))
     = outline (extrude_poly centroid lab st depth poly)"
  by (simp add: outline_def extrude_poly_def Let_def)

lemma outline_more: "outline (draw_more a b) =
   (fst (outline a) @ fst (outline b), fst (snd (outline a)) @ fst (snd (outline b)),
    snd (snd (outline a)) @ snd (snd (outline b)))"
  by (simp add: outline_def draw_more_def)

lemma outline_extrude_polys:
  "outline (extrude_polys centroid lab st depth (map (\<lambda>p. p\<lparr>interiors := f p\<rparr>) ps))
     = outline (extrude_polys centroid lab st depth ps)"
  by (induction ps) (simp_all add: outline_more outline_extrude_poly)

lemma outline_render_feature:
  "map_sum id outline (render_feature Blues centroid lab depths nds idx (map_option (with_interiors f) g))
     = map_sum id outline (render_feature Blues centroid lab depths nds idx g)"
proof (cases g)
  case None
  then show ?thesis by (simp add: render_feature_def)
next
  case (Some x)
  show ?thesis
  proof (cases x)
    case (Polygon p)
    have "outline (extrude_polys centroid lab st depth [p\<lparr>interiors := f p\<rparr>])
            = outline (extrude_polys centroid lab st depth [p])" for st depth
      using outline_extrude_polys[of centroid lab st depth f "[p]"] by simp
    then show ?thesis
      by (simp add: Some Polygon render_feature_def with_interiors_def split: sum.splits)
  next
    case (MultiPolygon ps)
    then show ?thesis
      by (simp add: Some render_feature_def with_interiors_def outline_extrude_polys
          split: sum.splits)
  next
    case (Other k)
    then show ?thesis by (simp add: Some render_feature_def with_interiors_def)
  qed
qed

lemma outline_render_features:
  "map_sum id outline (render_features Blues centroid lab depths nds idx (map (map_option (with_interiors f)) gs))
     = map_sum id outline (render_features Blues centroid lab depths nds idx gs)"
proof (induction gs arbitrary: idx)
  case Nil
  show ?case by simp
next
  case (Cons g gs)
  let ?a' = "render_feature Blues centroid lab depths nds idx (map_option (with_interiors f) g)"
  let ?a = "render_feature Blues centroid lab depths nds idx g"
  let ?b' = "render_features Blues centroid lab depths nds (Suc idx) (map (map_option (with_interiors f)) gs)"
  let ?b = "render_features Blues centroid lab depths nds (Suc idx) gs"
  have a: "map_sum id outline ?a' = map_sum id outline ?a" by (rule outline_render_feature)
  have b: "map_sum id outline ?b' = map_sum id outline ?b" by (rule Cons.IH)
  show ?case
    using a b
    by (cases ?a'; cases ?a; cases ?b'; cases ?b) (simp_all add: outline_more)
qed

lemma refill_facts:
  "columns (refill f gdf) = columns gdf"
  "length (rows (refill f gdf)) = length (rows gdf)"
  "column_values (refill f gdf) c = column_values gdf c"
  "map geometry (rows (refill f gdf)) = map (map_option (with_interiors f)) (map geometry (rows gdf))"
  by (simp_all add: refill_def column_values_def)

lemma resolve_depths_refill:
  "resolve_depths uniform (refill f gdf) dc = resolve_depths uniform gdf dc"
  by (simp add: resolve_depths_def fallback_depths_def refill_facts split: option.splits)


lemma plot_refill:
  "fst (plot_extruded_3d Blues uniform centroid (Some (refill f gdf)) lab dc)
     = fst (plot_extruded_3d Blues uniform centroid (Some gdf) lab dc)
   \<and> map_sum id mesh_and_limits (snd (plot_extruded_3d Blues uniform centroid (Some (refill f gdf)) lab dc))
     = map_sum id mesh_and_limits (snd (plot_extruded_3d Blues uniform centroid (Some gdf) lab dc))"
proof -
  let ?depths = "snd (resolve_depths uniform gdf dc)"
  show ?thesis
  proof (cases "np_min ?depths")
    case (Inl e)
    then show ?thesis
      by (simp add: plot_extruded_3d_def Let_def resolve_depths_refill refill_facts)
  next
    case lo: (Inr lo)
    show ?thesis
    proof (cases "np_max ?depths")
      case (Inl e)
      with lo show ?thesis
        by (simp add: plot_extruded_3d_def Let_def resolve_depths_refill refill_facts)
    next
      case hi: (Inr hi)
      show ?thesis
      proof (cases "normalize_depths ?depths lo hi")
        case (Inl e)
        with lo hi show ?thesis
          by (simp add: plot_extruded_3d_def Let_def resolve_depths_refill refill_facts)
      next
        case nds: (Inr nds)
        let ?r' = "render_features Blues centroid lab ?depths nds 0
                     (map (map_option (with_interiors f)) (map geometry (rows gdf)))"
        let ?r = "render_features Blues centroid lab ?depths nds 0 (map geometry (rows gdf))"
        have same: "map_sum id outline ?r' = map_sum id outline ?r"
          by (rule outline_render_features)
        show ?thesis
          using lo hi nds same
          by (cases ?r'; cases ?r)
             (simp_all add: plot_extruded_3d_def Let_def resolve_depths_refill refill_facts
                mesh_and_limits_def outline_def)
      qed
    qed
  qed
qed

text \<open>
  C10. Only the exterior ring of a polygon is drawn: replacing the interior rings of a
  polygon, or of every polygon of a table, by any others changes neither the
  collections added (top, bottom, walls), nor the coordinates from which the axis limits
  are computed, nor those limits, nor what is printed, nor the exception raised.
\<close>

theorem interior_rings_ignored:
  "outline (extrude_poly centroid lab st depth (poly\<lparr>interiors := holes\<rparr>))
     = outline (extrude_poly centroid lab st depth poly)
   \<and> fst (plot_extruded_3d Blues uniform centroid (Some (refill f gdf)) lab dc)
     = fst (plot_extruded_3d Blues uniform centroid (Some gdf) lab dc)
   \<and> map_sum id mesh_and_limits (snd (plot_extruded_3d Blues uniform centroid (Some (refill f gdf)) lab dc))
     = map_sum id mesh_and_limits (snd (plot_extruded_3d Blues uniform centroid (Some gdf) lab dc))"
  using outline_extrude_poly[of centroid lab st depth holes poly]
        plot_refill[of Blues uniform centroid f gdf lab dc]
  by (rule conjI)


subsection \<open>The empty table\<close>

lemma plot_empty:
  "rows gdf = [] \<Longrightarrow> uniform 0.5 3.0 0 = [] \<Longrightarrow>
   snd (plot_extruded_3d Blues uniform centroid (Some gdf) lab dc) = Inl ValueError
   \<and> WarnEmpty \<in> set (fst (plot_extruded_3d Blues uniform centroid (Some gdf) lab dc))"
  by (auto simp: plot_extruded_3d_def Let_def resolve_depths_def fallback_depths_def
      column_values_def np_min_def split: option.splits)

text \<open>
  C4. A table whose records are all filtered out is to be loaded without an exception
  and rendered as an empty mesh with a warning. Both loaders return the empty table; the
  renderer prints the warning and then raises \<^verbatim>\<open>ValueError\<close>, from \<^verbatim>\<open>np.min\<close> of no
  depths.
\<close>

theorem renderer_raises_on_empty_table:
  "snd (read_kml_to_gdf (\<lambda>p d. Inr (table_of None [None, Some (Other Point)]))
          keep_geom no_repair not_bowtie ''doc.kml'')
     = Inr (table_of (Some (EPSG 4326)) [])
   \<and> snd (read_polygons (\<lambda>p d. Inr (table_of None [None, Some (Other Point)])) ''doc.kml'')
     = Inr (table_of (Some (EPSG 4326)) [])
   \<and> plot_extruded_3d grey_ramp lowest_sample first_vertex
        (Some (table_of (Some (EPSG 4326)) [])) False None
     = ([WarnEmpty, NoDepthColumn], Inl ValueError)"
  by (simp add: read_kml_to_gdf_def read_polygons_def read_with_fallback_def clean_gdf_def
      polygons_of_def filter_notnull_def filter_polygonal_def is_polygonal_def set_crs_def
      buffer_all_def filter_valid_def table_of_def plot_extruded_3d_def resolve_depths_def
      fallback_depths_def fallback_columns_def lowest_sample_def np_min_def Let_def)

subsection \<open>Cleaning the table\<close>

lemma crs_clean_gdf: "crs (clean_gdf tr bf iv g) = Some (EPSG 4326)"
  by (simp add: clean_gdf_def Let_def filter_valid_def buffer_all_def set_crs_def to_crs_def
      split: option.splits)

lemma crs_read_kml_to_gdf:
  "snd (read_kml_to_gdf read_file tr bf iv p) = Inr gdf \<Longrightarrow> crs gdf = Some (EPSG 4326)"
  by (auto simp: read_kml_to_gdf_def crs_clean_gdf split: prod.splits sum.splits)

lemma valid_clean_gdf:
  "r \<in> set (rows (clean_gdf tr bf iv g)) \<Longrightarrow>
   \<exists>x. geometry r = Some x \<and> iv x"
  by (auto simp: clean_gdf_def Let_def filter_valid_def row_valid_def split: option.splits)

lemma polygonal_polygons_of:
  "r \<in> set (rows (polygons_of g)) \<Longrightarrow>
   \<exists>x. geometry r = Some x \<and> (geom_type x = ''Polygon'' \<or> geom_type x = ''MultiPolygon'')"
  by (auto simp: polygons_of_def Let_def filter_polygonal_def filter_notnull_def set_crs_def is_polygonal_def
      split: option.splits if_splits)

text \<open>
  C2. Every geometry returned by the loader is to be valid, the invalid ones repaired
  by a zero-distance buffer or dropped. \<^verbatim>\<open>plot_kmz_flood.read_polygons\<close> returns the bow
  tie, a self-intersecting ring, as it read it, where \<^verbatim>\<open>read_kml_to_gdf\<close> on the same
  table returns what the buffer made of it, or drops it when it stays invalid.
\<close>

theorem read_polygons_keeps_invalid_ring:
  "snd (read_polygons (\<lambda>p d. Inr (table_of None [Some (Polygon bowtie)])) ''doc.kml'')
     = Inr (table_of (Some (EPSG 4326)) [Some (Polygon bowtie)])
   \<and> snd (read_kml_to_gdf (\<lambda>p d. Inr (table_of None [Some (Polygon bowtie)]))
            keep_geom split_bowtie not_bowtie ''doc.kml'')
     = Inr (table_of (Some (EPSG 4326))
              [Some (split_bowtie (Polygon bowtie) 0)])
   \<and> snd (read_kml_to_gdf (\<lambda>p d. Inr (table_of None [Some (Polygon bowtie)]))
            keep_geom no_repair not_bowtie ''doc.kml'')
     = Inr (table_of (Some (EPSG 4326)) [])"
  by (simp add: read_kml_to_gdf_def read_polygons_def read_with_fallback_def clean_gdf_def
      polygons_of_def filter_notnull_def filter_polygonal_def is_polygonal_def set_crs_def
      buffer_all_def filter_valid_def row_valid_def table_of_def no_repair_def not_bowtie_def
      split_bowtie_def Let_def)

text \<open>
  C3. The loaded table is to be in EPSG:4326 whatever the parsed data declares.
  \<^verbatim>\<open>plot_kmz_flood.read_polygons\<close> returns a table declared in EPSG:32647 unchanged, where
  \<^verbatim>\<open>read_kml_to_gdf\<close> reprojects the same table to EPSG:4326.
\<close>

theorem read_polygons_keeps_other_crs:
  "snd (read_polygons (\<lambda>p d. Inr (table_of (Some (EPSG 32647)) [Some (Polygon square)])) ''doc.kml'')
     = Inr (table_of (Some (EPSG 32647)) [Some (Polygon square)])
   \<and> snd (read_kml_to_gdf (\<lambda>p d. Inr (table_of (Some (EPSG 32647)) [Some (Polygon square)]))
            keep_geom no_repair not_bowtie ''doc.kml'')
     = Inr (table_of (Some (EPSG 4326)) [Some (Polygon square)])"
  by (simp add: read_kml_to_gdf_def read_polygons_def read_with_fallback_def clean_gdf_def
      polygons_of_def filter_notnull_def filter_polygonal_def is_polygonal_def set_crs_def
      to_crs_def keep_geom_def
      buffer_all_def filter_valid_def row_valid_def table_of_def no_repair_def not_bowtie_def
      bowtie_def square_def Let_def)

subsection \<open>The two drivers\<close>

text \<open>
  C8. All three scripts hand the file to the \<^verbatim>\<open>LIBKML\<close> driver first. When that call
  succeeds nothing else is tried; when it fails, the reader is called once more (with
  \<^verbatim>\<open>KML\<close>, or with no driver named in \<^verbatim>\<open>read_polygons\<close>) and the outcome of that second
  call, its exception included, is the outcome of the step.
\<close>

theorem driver_fallback:
  "(read_file p (Some ''LIBKML'') = Inr g \<longrightarrow>
      read_kml_to_gdf read_file tr bf iv p = ([Some ''LIBKML''], Inr (clean_gdf tr bf iv g))
      \<and> read_polygons read_file p = ([Some ''LIBKML''], Inr (polygons_of g))
      \<and> pyogrio_read read_file p = ([Some ''LIBKML''], Inr g))
   \<and> (read_file p (Some ''LIBKML'') = Inl e \<longrightarrow>
        fst (read_kml_to_gdf read_file tr bf iv p) = [Some ''LIBKML'', Some ''KML'']
        \<and> fst (read_polygons read_file p) = [Some ''LIBKML'', None]
        \<and> fst (pyogrio_read read_file p) = [Some ''LIBKML'', Some ''KML'']
        \<and> (read_file p (Some ''KML'') = Inl e2 \<longrightarrow>
             snd (read_kml_to_gdf read_file tr bf iv p) = Inl e2
             \<and> snd (pyogrio_read read_file p) = Inl e2)
        \<and> (read_file p None = Inl e3 \<longrightarrow> snd (read_polygons read_file p) = Inl e3)
        \<and> (read_file p (Some ''KML'') = Inr g2 \<longrightarrow>
             snd (read_kml_to_gdf read_file tr bf iv p) = Inr (clean_gdf tr bf iv g2)
             \<and> snd (pyogrio_read read_file p) = Inr g2)
        \<and> (read_file p None = Inr g3 \<longrightarrow> snd (read_polygons read_file p) = Inr (polygons_of g3)))"
  by (auto simp: read_kml_to_gdf_def read_polygons_def pyogrio_read_def read_with_fallback_def
      split: sum.splits)

theorem driver_fallback_witness:
  "failing_reader ''doc.kml'' (Some ''LIBKML'') = Inl (LibraryError ''LIBKML cannot open the file'')
   \<and> failing_reader ''doc.kml'' (Some ''KML'') = Inl (LibraryError ''KML cannot open the file'')
   \<and> read_kml_to_gdf failing_reader keep_geom no_repair not_bowtie ''doc.kml''
       = ([Some ''LIBKML'', Some ''KML''], Inl (LibraryError ''KML cannot open the file''))
   \<and> read_polygons failing_reader ''doc.kml''
       = ([Some ''LIBKML'', None], Inl (LibraryError ''no driver could open the file''))
   \<and> read_polygons (kml_only_reader (table_of None [])) ''doc.kml''
       = ([Some ''LIBKML'', None], Inr (polygons_of (table_of None [])))
   \<and> pyogrio_read (\<lambda>p d. Inr (table_of None [])) ''doc.kml'' = ([Some ''LIBKML''], Inr (table_of None []))"
proof -
  have f1: "failing_reader ''doc.kml'' (Some ''LIBKML'') = Inl (LibraryError ''LIBKML cannot open the file'')"
    and f2: "failing_reader ''doc.kml'' (Some ''KML'') = Inl (LibraryError ''KML cannot open the file'')"
    and f3: "failing_reader ''doc.kml'' None = Inl (LibraryError ''no driver could open the file'')"
    by (simp_all add: failing_reader_def)
  have k1: "kml_only_reader (table_of None []) ''doc.kml'' (Some ''LIBKML'') = Inl (LibraryError ''unsupported driver'')"
    and k2: "kml_only_reader (table_of None []) ''doc.kml'' None = Inr (table_of None [])"
    by (simp_all add: kml_only_reader_def)
  have s1: "(\<lambda>p d. Inr (table_of None [])) ''doc.kml'' (Some ''LIBKML'') = (Inr (table_of None []) :: py_error + geodataframe)"
    by simp
  note a = driver_fallback[of failing_reader "''doc.kml''" _ keep_geom no_repair not_bowtie
      "LibraryError ''LIBKML cannot open the file''" "LibraryError ''KML cannot open the file''"
      "LibraryError ''no driver could open the file''"]
  note b = driver_fallback[of "kml_only_reader (table_of None [])" "''doc.kml''" _ keep_geom no_repair not_bowtie
      "LibraryError ''unsupported driver''" _ _ _ "table_of None []"]
  note c = driver_fallback[of "\<lambda>p d. Inr (table_of None [])" "''doc.kml''" "table_of None []"
      keep_geom no_repair not_bowtie]
  have "read_kml_to_gdf failing_reader keep_geom no_repair not_bowtie ''doc.kml''
       = ([Some ''LIBKML'', Some ''KML''], Inl (LibraryError ''KML cannot open the file''))"
    using a f1 f2 by (simp add: prod_eq_iff)
  moreover have "read_polygons failing_reader ''doc.kml''
       = ([Some ''LIBKML'', None], Inl (LibraryError ''no driver could open the file''))"
    using a f1 f3 by (simp add: prod_eq_iff)
  moreover have "read_polygons (kml_only_reader (table_of None [])) ''doc.kml''
       = ([Some ''LIBKML'', None], Inr (polygons_of (table_of None [])))"
    using b k1 k2 by (simp add: prod_eq_iff)
  moreover have "pyogrio_read (\<lambda>p d. Inr (table_of None [])) ''doc.kml'' = ([Some ''LIBKML''], Inr (table_of None []))"
    using c s1 by blast
  ultimately show ?thesis using f1 f2 by blast
qed


end
